theory Spec2Isabelle
  imports Main
begin

section \<open>The Highlight Text plugin (highlight\_text.py)\<close>

text \<open>
  The plugin consists of two classes. \<^verbatim>\<open>HighlightTextPlugin\<close> is loaded once and owns the
  dictionary \<^verbatim>\<open>_instances\<close> from editor windows to helpers. \<^verbatim>\<open>HighlightTextWindowHelper\<close>
  is constructed once per window; it holds references to the plugin, to its window, to the
  merge identifier of its menu fragment and to its action group.

  Both classes work on objects owned by the host editor (windows, documents, views, UI
  managers, action groups). Python objects are mutable and shared by reference, so the model
  keeps every kind of object that the plugin mutates in a store indexed by an object
  identity. A reference always denotes an object, hence the stores are total functions;
  the Python value \<^verbatim>\<open>None\<close> is the \<open>None\<close> of an option type. Every method takes the world
  and returns a result together with the world it leaves behind, also when it raises: the
  mutations made before an exception stay.
\<close>

subsection \<open>Exceptions\<close>

datatype py_error = KeyError | AttributeError | TypeError | ValueError

subsection \<open>Host objects\<close>

type_synonym window_id = nat
type_synonym doc_id = nat
type_synonym ag_id = nat
type_synonym helper_id = nat

text \<open>
  The host's search flags are the bits of a flag word. A flag word is modelled as the set
  of the flags whose bits are set, so \<^verbatim>\<open>a | b\<close> is a union and a single flag is a singleton.
\<close>

datatype search_flag = SEARCH_DONT_SET_FLAGS | SEARCH_ENTIRE_WORD | SEARCH_CASE_SENSITIVE

text \<open>
  A document is a text buffer with the two marks that delimit the selection (the selection
  is empty when they coincide), and it records the search text and the search flags that
  were last handed to \<^verbatim>\<open>set_search_text\<close>.
\<close>

record document =
  buffer_text :: string
  insert_mark :: nat
  selection_bound_mark :: nat
  search_text :: string
  search_flags :: "search_flag set"

record view =
  editable :: bool

text \<open>
  One entry of an action group, as the tuple given to \<^verbatim>\<open>add_actions\<close>. The callback is a
  bound method \<^verbatim>\<open>_highlight_selection\<close>; it is represented by the helper it is bound to.
\<close>

record action_entry =
  action_name :: string
  stock_id :: "string option"
  label :: string
  accelerator :: string
  tooltip :: string
  callback :: helper_id

record action_group =
  group_name :: string
  sensitive :: bool
  actions :: "action_entry list"

text \<open>The parsed form of a UI definition string.\<close>

datatype ui_node =
    Menubar string "ui_node list"
  | Menu string string "ui_node list"
  | Placeholder string "ui_node list"
  | Separator
  | Menuitem string

text \<open>
  A UI manager lists its action groups in order and keeps every merged UI fragment under
  the merge identifier that \<^verbatim>\<open>add_ui_from_string\<close> returned for it.
\<close>

record ui_manager =
  um_action_groups :: "ag_id list"
  um_merged :: "(nat \<times> ui_node) list"
  um_last_merge_id :: nat

record window =
  ui_manager :: ui_manager
  active_document :: "doc_id option"
  active_view :: "view option"

subsection \<open>Plugin objects\<close>

text \<open>There is one plugin object per editor instance.\<close>

datatype plugin_ref = PluginRoot

text \<open>The four attributes of a \<^verbatim>\<open>HighlightTextWindowHelper\<close>.\<close>

record helper =
  helper_window :: "window_id option"
  helper_plugin :: "plugin_ref option"
  helper_ui_id :: "nat option"
  helper_action_group :: "ag_id option"

text \<open>
  The world: the stores of host objects, the store of helper objects, the allocation
  counters for the two kinds of object the plugin creates, and the plugin's dictionary
  \<^verbatim>\<open>_instances\<close>.
\<close>

record world =
  windows :: "window_id \<Rightarrow> window"
  documents :: "doc_id \<Rightarrow> document"
  action_groups :: "ag_id \<Rightarrow> action_group"
  next_action_group :: ag_id
  helpers :: "helper_id \<Rightarrow> helper"
  next_helper :: helper_id
  instances :: "window_id \<rightharpoonup> helper_id"

type_synonym 'a result = "(py_error + 'a) \<times> world"

subsection \<open>Host operations on a document\<close>

definition get_has_selection :: "document \<Rightarrow> bool" where
  "get_has_selection d = (insert_mark d \<noteq> selection_bound_mark d)"

text \<open>The bounds in ascending order, or the empty tuple (\<open>None\<close>) when nothing is selected.\<close>

definition get_selection_bounds :: "document \<Rightarrow> (nat \<times> nat) option" where
  "get_selection_bounds d =
     (if insert_mark d = selection_bound_mark d then None
      else Some (min (insert_mark d) (selection_bound_mark d),
                 max (insert_mark d) (selection_bound_mark d)))"

definition get_text :: "document \<Rightarrow> nat \<Rightarrow> nat \<Rightarrow> string" where
  "get_text d start_iter end_iter = take (end_iter - start_iter) (drop start_iter (buffer_text d))"

definition set_search_text :: "string \<Rightarrow> search_flag set \<Rightarrow> document \<Rightarrow> document" where
  "set_search_text text flags d = d\<lparr>search_text := text, search_flags := flags\<rparr>"

subsection \<open>Host operations on a UI manager and on an action group\<close>

definition new_action_group :: "string \<Rightarrow> action_group" where
  "new_action_group name = \<lparr>group_name = name, sensitive = True, actions = []\<rparr>"

definition add_actions :: "action_entry list \<Rightarrow> action_group \<Rightarrow> action_group" where
  "add_actions entries g = g\<lparr>actions := actions g @ entries\<rparr>"

definition set_sensitive :: "bool \<Rightarrow> action_group \<Rightarrow> action_group" where
  "set_sensitive b g = g\<lparr>sensitive := b\<rparr>"

text \<open>A negative position, or one beyond the end, appends.\<close>

definition insert_action_group :: "ag_id \<Rightarrow> int \<Rightarrow> ui_manager \<Rightarrow> ui_manager" where
  "insert_action_group g pos m =
     (if pos < 0 \<or> length (um_action_groups m) \<le> nat pos
      then m\<lparr>um_action_groups := um_action_groups m @ [g]\<rparr>
      else m\<lparr>um_action_groups :=
                take (nat pos) (um_action_groups m) @ g # drop (nat pos) (um_action_groups m)\<rparr>)"

definition add_ui_from_string :: "ui_node \<Rightarrow> ui_manager \<Rightarrow> nat \<times> ui_manager" where
  "add_ui_from_string ui m =
     (let merge_id = Suc (um_last_merge_id m)
      in (merge_id, m\<lparr>um_merged := um_merged m @ [(merge_id, ui)], um_last_merge_id := merge_id\<rparr>))"

definition remove_ui :: "nat \<Rightarrow> ui_manager \<Rightarrow> ui_manager" where
  "remove_ui merge_id m = m\<lparr>um_merged := filter (\<lambda>e. fst e \<noteq> merge_id) (um_merged m)\<rparr>"

definition remove_action_group :: "ag_id \<Rightarrow> ui_manager \<Rightarrow> ui_manager" where
  "remove_action_group g m = m\<lparr>um_action_groups := removeAll g (um_action_groups m)\<rparr>"

definition ensure_update :: "ui_manager \<Rightarrow> ui_manager" where
  "ensure_update m = m"

subsection \<open>Writing to the stores\<close>

definition update_manager :: "window_id \<Rightarrow> (ui_manager \<Rightarrow> ui_manager) \<Rightarrow> world \<Rightarrow> world" where
  "update_manager win f w =
     w\<lparr>windows := (windows w)(win := (windows w win)\<lparr>ui_manager := f (ui_manager (windows w win))\<rparr>)\<rparr>"

definition update_action_group :: "ag_id \<Rightarrow> (action_group \<Rightarrow> action_group) \<Rightarrow> world \<Rightarrow> world" where
  "update_action_group g f w = w\<lparr>action_groups := (action_groups w)(g := f (action_groups w g))\<rparr>"

definition update_document :: "doc_id \<Rightarrow> (document \<Rightarrow> document) \<Rightarrow> world \<Rightarrow> world" where
  "update_document d f w = w\<lparr>documents := (documents w)(d := f (documents w d))\<rparr>"

definition update_helper :: "helper_id \<Rightarrow> (helper \<Rightarrow> helper) \<Rightarrow> world \<Rightarrow> world" where
  "update_helper h f w = w\<lparr>helpers := (helpers w)(h := f (helpers w h))\<rparr>"

subsection \<open>HighlightTextPlugin.log\<close>

text \<open>
  The logger's level is \<^verbatim>\<open>WARNING\<close>, and every call of \<^verbatim>\<open>log\<close> in the module logs at level
  debug or info, so nothing is emitted and the world stays as it is. What matters is that
  a helper reaches the method through its attribute \<^verbatim>\<open>_plugin\<close>: on a helper whose
  \<^verbatim>\<open>_plugin\<close> is \<^verbatim>\<open>None\<close> the call raises.
\<close>

definition plugin_log :: "world \<Rightarrow> world" where
  "plugin_log w = w"

definition helper_log :: "helper_id \<Rightarrow> world \<Rightarrow> unit result" where
  "helper_log h w =
     (case helper_plugin (helpers w h) of
        None \<Rightarrow> (Inl AttributeError, w)
      | Some p \<Rightarrow> (Inr (), plugin_log w))"

subsection \<open>HighlightTextWindowHelper\<close>

definition highlight_text_action :: "helper_id \<Rightarrow> action_entry" where
  "highlight_text_action h =
     \<lparr>action_name = ''HighlightText'',
      stock_id = None,
      label = ''Highlight Text'',
      accelerator = ''<Shift><Control>f'',
      tooltip = ''Highlight all occurances of the text currently selected.'',
      callback = h\<rparr>"

definition ui_str :: ui_node where
  "ui_str =
     Menubar ''MenuBar''
       [Menu ''SearchMenu'' ''Search''
          [Placeholder ''SearchOps_1''
             [Placeholder ''HighlightText''
                [Separator, Menuitem ''HighlightText'']]]]"

text \<open>
  \<^verbatim>\<open>update_ui(self, window)\<close>. The argument is whatever the caller passes: the plugin
  passes a window, the constructor passes the helper's own attribute \<^verbatim>\<open>_window\<close>.
  A document and a view are host objects and count as true, so the condition
  \<^verbatim>\<open>doc and current_view and current_view.get_editable()\<close> tests the two references for
  \<^verbatim>\<open>None\<close> and then the view's editability.
\<close>

definition helper_update_ui :: "helper_id \<Rightarrow> window_id option \<Rightarrow> world \<Rightarrow> unit result" where
  "helper_update_ui h window w =
     (case helper_log h w of
        (Inl e, w1) \<Rightarrow> (Inl e, w1)
      | (Inr _, w1) \<Rightarrow>
          (case helper_window (helpers w1 h) of
             None \<Rightarrow> (Inl AttributeError, w1)
           | Some win \<Rightarrow>
               (let doc = active_document (windows w1 win);
                    current_view = active_view (windows w1 win)
                in case doc of
                     None \<Rightarrow> (Inr (), w1)
                   | Some d \<Rightarrow>
                       (case current_view of
                          None \<Rightarrow> (Inr (), w1)
                        | Some v \<Rightarrow>
                            if editable v then
                              (case helper_action_group (helpers w1 h) of
                                 None \<Rightarrow> (Inl AttributeError, w1)
                               | Some g \<Rightarrow> (Inr (), update_action_group g (set_sensitive True) w1))
                            else (Inr (), w1)))))"

text \<open>\<^verbatim>\<open>_insert_menu(self)\<close>\<close>

definition insert_menu :: "helper_id \<Rightarrow> world \<Rightarrow> unit result" where
  "insert_menu h w =
     (case helper_log h w of
        (Inl e, w1) \<Rightarrow> (Inl e, w1)
      | (Inr _, w1) \<Rightarrow>
          (case helper_window (helpers w1 h) of
             None \<Rightarrow> (Inl AttributeError, w1)
           | Some win \<Rightarrow>
               (let g = next_action_group w1;
                    w2 = w1\<lparr>action_groups :=
                              (action_groups w1)(g := new_action_group ''HighlightTextPluginActions''),
                            next_action_group := Suc g\<rparr>;
                    w3 = update_helper h (\<lambda>x. x\<lparr>helper_action_group := Some g\<rparr>) w2;
                    w4 = update_action_group g (add_actions [highlight_text_action h]) w3;
                    w5 = update_manager win (insert_action_group g (- 1)) w4;
                    merge_id = fst (add_ui_from_string ui_str (ui_manager (windows w5 win)));
                    w6 = update_manager win (\<lambda>m. snd (add_ui_from_string ui_str m)) w5;
                    w7 = update_helper h (\<lambda>x. x\<lparr>helper_ui_id := Some merge_id\<rparr>) w6
                in helper_log h w7)))"

text \<open>
  \<^verbatim>\<open>__init__(self, plugin, window)\<close>, on a newly allocated helper object. An attribute that
  is not assigned yet reads as \<open>None\<close>.
\<close>

definition helper_init :: "plugin_ref \<Rightarrow> window_id \<Rightarrow> world \<Rightarrow> helper_id result" where
  "helper_init plugin window w =
     (let h = next_helper w;
          w1 = w\<lparr>helpers := (helpers w)(h :=
                     \<lparr>helper_window = Some window, helper_plugin = Some plugin,
                      helper_ui_id = None, helper_action_group = None\<rparr>),
                 next_helper := Suc h\<rparr>
      in case helper_log h w1 of
           (Inl e, w2) \<Rightarrow> (Inl e, w2)
         | (Inr _, w2) \<Rightarrow>
             (case helper_log h w2 of
                (Inl e, w3) \<Rightarrow> (Inl e, w3)
              | (Inr _, w3) \<Rightarrow>
                  (let w4 = update_helper h
                              (\<lambda>x. x\<lparr>helper_ui_id := None, helper_action_group := None\<rparr>) w3
                   in case insert_menu h w4 of
                        (Inl e, w5) \<Rightarrow> (Inl e, w5)
                      | (Inr _, w5) \<Rightarrow>
                          (case helper_update_ui h (helper_window (helpers w5 h)) w5 of
                             (Inl e, w6) \<Rightarrow> (Inl e, w6)
                           | (Inr _, w6) \<Rightarrow> (Inr h, w6)))))"

text \<open>\<^verbatim>\<open>_remove_menu(self)\<close>\<close>

definition remove_menu :: "helper_id \<Rightarrow> world \<Rightarrow> unit result" where
  "remove_menu h w =
     (case helper_log h w of
        (Inl e, w1) \<Rightarrow> (Inl e, w1)
      | (Inr _, w1) \<Rightarrow>
          (case helper_window (helpers w1 h) of
             None \<Rightarrow> (Inl AttributeError, w1)
           | Some win \<Rightarrow>
               (case helper_ui_id (helpers w1 h) of
                  None \<Rightarrow> (Inl TypeError, w1)
                | Some merge_id \<Rightarrow>
                    (let w2 = update_manager win (remove_ui merge_id) w1
                     in case helper_action_group (helpers w2 h) of
                          None \<Rightarrow> (Inl TypeError, w2)
                        | Some g \<Rightarrow>
                            (let w3 = update_manager win (remove_action_group g) w2;
                                 w4 = update_manager win ensure_update w3
                             in helper_log h w4)))))"

text \<open>\<^verbatim>\<open>deactivate(self)\<close>\<close>

definition helper_deactivate :: "helper_id \<Rightarrow> world \<Rightarrow> unit result" where
  "helper_deactivate h w =
     (case helper_log h w of
        (Inl e, w1) \<Rightarrow> (Inl e, w1)
      | (Inr _, w1) \<Rightarrow>
          (case helper_log h w1 of
             (Inl e, w2) \<Rightarrow> (Inl e, w2)
           | (Inr _, w2) \<Rightarrow>
               (case remove_menu h w2 of
                  (Inl e, w3) \<Rightarrow> (Inl e, w3)
                | (Inr _, w3) \<Rightarrow>
                    (let w4 = update_helper h (\<lambda>x. x\<lparr>helper_action_group := None\<rparr>) w3;
                         w5 = update_helper h (\<lambda>x. x\<lparr>helper_plugin := None\<rparr>) w4;
                         w6 = update_helper h (\<lambda>x. x\<lparr>helper_window := None\<rparr>) w5
                     in (Inr (), w6)))))"

text \<open>\<^verbatim>\<open>_get_text_selection(self)\<close>\<close>

definition get_text_selection :: "helper_id \<Rightarrow> world \<Rightarrow> string result" where
  "get_text_selection h w =
     (case helper_log h w of
        (Inl e, w1) \<Rightarrow> (Inl e, w1)
      | (Inr _, w1) \<Rightarrow>
          (case helper_window (helpers w1 h) of
             None \<Rightarrow> (Inl AttributeError, w1)
           | Some win \<Rightarrow>
               (case active_document (windows w1 win) of
                  None \<Rightarrow> (Inl AttributeError, w1)
                | Some doc \<Rightarrow>
                    if get_has_selection (documents w1 doc) then
                      (case get_selection_bounds (documents w1 doc) of
                         None \<Rightarrow> (Inl ValueError, w1)
                       | Some (start_iter, end_iter) \<Rightarrow>
                           (Inr (get_text (documents w1 doc) start_iter end_iter), w1))
                    else (Inr [], w1))))"

text \<open>\<^verbatim>\<open>_highlight_selection(self, action)\<close>\<close>

definition highlight_selection :: "helper_id \<Rightarrow> action_entry \<Rightarrow> world \<Rightarrow> unit result" where
  "highlight_selection h action w =
     (case helper_log h w of
        (Inl e, w1) \<Rightarrow> (Inl e, w1)
      | (Inr _, w1) \<Rightarrow>
          (case helper_window (helpers w1 h) of
             None \<Rightarrow> (Inl AttributeError, w1)
           | Some win \<Rightarrow>
               (let doc = active_document (windows w1 win)
                in case get_text_selection h w1 of
                     (Inl e, w2) \<Rightarrow> (Inl e, w2)
                   | (Inr text, w2) \<Rightarrow>
                       (let flags = {SEARCH_CASE_SENSITIVE}
                        in case doc of
                             None \<Rightarrow> (Inl AttributeError, w2)
                           | Some d \<Rightarrow> (Inr (), update_document d (set_search_text text flags) w2)))))"

subsection \<open>HighlightTextPlugin\<close>

text \<open>The part of \<^verbatim>\<open>__init__\<close> that sets up the plugin's state: \<^verbatim>\<open>self._instances = {}\<close>.\<close>

definition plugin_init :: "world \<Rightarrow> world" where
  "plugin_init w = (plugin_log (plugin_log w))\<lparr>instances := Map.empty\<rparr>"

definition activate :: "window_id \<Rightarrow> world \<Rightarrow> unit result" where
  "activate window w =
     (let w1 = plugin_log w
      in case helper_init PluginRoot window w1 of
           (Inl e, w2) \<Rightarrow> (Inl e, w2)
         | (Inr h, w2) \<Rightarrow> (Inr (), w2\<lparr>instances := (instances w2)(window \<mapsto> h)\<rparr>))"

definition deactivate :: "window_id \<Rightarrow> world \<Rightarrow> unit result" where
  "deactivate window w =
     (let w1 = plugin_log w
      in case instances w1 window of
           None \<Rightarrow> (Inl KeyError, w1)
         | Some h \<Rightarrow>
             (case helper_deactivate h w1 of
                (Inl e, w2) \<Rightarrow> (Inl e, w2)
              | (Inr _, w2) \<Rightarrow>
                  (case instances w2 window of
                     None \<Rightarrow> (Inl KeyError, w2)
                   | Some h' \<Rightarrow> (Inr (), w2\<lparr>instances := (instances w2)(window := None)\<rparr>))))"

definition update_ui :: "window_id \<Rightarrow> world \<Rightarrow> unit result" where
  "update_ui window w =
     (let w1 = plugin_log w
      in case instances w1 window of
           None \<Rightarrow> (Inl KeyError, w1)
         | Some h \<Rightarrow> helper_update_ui h (Some window) w1)"

definition is_configurable :: "world \<Rightarrow> bool result" where
  "is_configurable w = (let w1 = plugin_log w in (Inr False, w1))"

subsection \<open>Sequences of lifecycle calls\<close>

datatype call = Activate window_id | Deactivate window_id

text \<open>The host issues the calls one after the other; an exception ends the sequence.\<close>

fun run_calls :: "call list \<Rightarrow> world \<Rightarrow> unit result" where
  "run_calls [] w = (Inr (), w)"
| "run_calls (Activate x # cs) w =
     (case activate x w of (Inl e, w') \<Rightarrow> (Inl e, w') | (Inr _, w') \<Rightarrow> run_calls cs w')"
| "run_calls (Deactivate x # cs) w =
     (case deactivate x w of (Inl e, w') \<Rightarrow> (Inl e, w') | (Inr _, w') \<Rightarrow> run_calls cs w')"

text \<open>
  The specification's side of the lifecycle property. Given the set of windows that are
  activated before the calls, \<open>activated_after\<close> is the set of windows that are activated
  and not since deactivated after them, and \<open>well_sequenced\<close> says that every activate is
  for a window not currently activated and every deactivate for one that is.
\<close>

fun activated_after :: "window_id set \<Rightarrow> call list \<Rightarrow> window_id set" where
  "activated_after A [] = A"
| "activated_after A (Activate x # cs) = activated_after (insert x A) cs"
| "activated_after A (Deactivate x # cs) = activated_after (A - {x}) cs"

fun well_sequenced :: "window_id set \<Rightarrow> call list \<Rightarrow> bool" where
  "well_sequenced A [] = True"
| "well_sequenced A (Activate x # cs) = (x \<notin> A \<and> well_sequenced (insert x A) cs)"
| "well_sequenced A (Deactivate x # cs) = (x \<in> A \<and> well_sequenced (A - {x}) cs)"

text \<open>The window a call is for.\<close>

fun call_window :: "call \<Rightarrow> window_id" where
  "call_window (Activate x) = x"
| "call_window (Deactivate x) = x"

subsection \<open>The invariant of the plugin's dictionary\<close>

text \<open>
  Every helper that the dictionary holds was allocated before, is the helper of the window
  it is stored under, and has not been deactivated: its four attributes are set.
\<close>

definition plugin_inv :: "world \<Rightarrow> bool" where
  "plugin_inv w =
     (\<forall>win h. instances w win = Some h \<longrightarrow>
        h < next_helper w
      \<and> helper_window (helpers w h) = Some win
      \<and> helper_plugin (helpers w h) \<noteq> None
      \<and> helper_ui_id (helpers w h) \<noteq> None
      \<and> helper_action_group (helpers w h) \<noteq> None)"

subsection \<open>Concrete worlds\<close>

text \<open>
  A host in which every window looks like \<open>win\<close> and every document like \<open>doc\<close>, before the
  plugin is loaded; and the same host after the plugin was loaded and activated for window 0.
\<close>

definition host_world :: "window \<Rightarrow> document \<Rightarrow> world" where
  "host_world win doc =
     \<lparr>windows = (\<lambda>_. win),
      documents = (\<lambda>_. doc),
      action_groups = (\<lambda>_. new_action_group []),
      next_action_group = 0,
      helpers = (\<lambda>_. \<lparr>helper_window = None, helper_plugin = None,
                       helper_ui_id = None, helper_action_group = None\<rparr>),
      next_helper = 0,
      instances = Map.empty\<rparr>"

definition activated_world :: "window \<Rightarrow> document \<Rightarrow> world" where
  "activated_world win doc = snd (activate 0 (plugin_init (host_world win doc)))"

definition empty_manager :: ui_manager where
  "empty_manager = \<lparr>um_action_groups = [], um_merged = [], um_last_merge_id = 0\<rparr>"

text \<open>A window showing document 0 in an editable view, and a window with no document.\<close>

definition editing_window :: window where
  "editing_window =
     \<lparr>ui_manager = empty_manager, active_document = Some 0,
      active_view = Some \<lparr>editable = True\<rparr>\<rparr>"

definition empty_window :: window where
  "empty_window = \<lparr>ui_manager = empty_manager, active_document = None, active_view = None\<rparr>"

text \<open>A document in which \<^verbatim>\<open>foo\<close> is selected, and one in which nothing is.\<close>

definition foo_document :: document where
  "foo_document =
     \<lparr>buffer_text = ''a foo b'', insert_mark = 5, selection_bound_mark = 2,
      search_text = ''old'', search_flags = {SEARCH_ENTIRE_WORD}\<rparr>"

definition unselected_document :: document where
  "unselected_document =
     \<lparr>buffer_text = ''a foo b'', insert_mark = 3, selection_bound_mark = 3,
      search_text = ''old'', search_flags = {SEARCH_ENTIRE_WORD}\<rparr>"

section \<open>Properties\<close>

subsection \<open>Reading the selection and setting the search text\<close>

lemma get_text_selection_selected:
  assumes "helper_plugin (helpers w h) = Some p"
      and "helper_window (helpers w h) = Some win"
      and "active_document (windows w win) = Some d"
      and "get_selection_bounds (documents w d) = Some (s, e)"
  shows "get_text_selection h w = (Inr (get_text (documents w d) s e), w)"
  using assms
  by (auto simp: get_text_selection_def helper_log_def plugin_log_def
        get_has_selection_def get_selection_bounds_def split: if_splits)

lemma get_text_selection_unselected:
  assumes "helper_plugin (helpers w h) = Some p"
      and "helper_window (helpers w h) = Some win"
      and "active_document (windows w win) = Some d"
      and "\<not> get_has_selection (documents w d)"
  shows "get_text_selection h w = (Inr [], w)"
  using assms
  by (simp add: get_text_selection_def helper_log_def plugin_log_def)

lemma highlight_selection_sets:
  assumes "helper_plugin (helpers w h) = Some p"
      and "helper_window (helpers w h) = Some win"
      and "active_document (windows w win) = Some d"
      and "get_text_selection h w = (Inr text, w)"
  shows "highlight_selection h action w =
           (Inr (), update_document d (set_search_text text {SEARCH_CASE_SENSITIVE}) w)"
  using assms
  by (simp add: highlight_selection_def helper_log_def plugin_log_def)

subsection \<open>Facts about the concrete worlds\<close>

lemmas activation_defs =
  activated_world_def activate_def plugin_init_def plugin_log_def helper_init_def
  helper_log_def host_world_def insert_menu_def update_helper_def update_manager_def
  update_action_group_def helper_update_ui_def Let_def

lemma activated_world_helper:
  "helpers (activated_world win doc) 0 =
     \<lparr>helper_window = Some 0, helper_plugin = Some PluginRoot,
      helper_ui_id = Some (Suc (um_last_merge_id (ui_manager win))),
      helper_action_group = Some 0\<rparr>"
  by (simp add: activation_defs add_ui_from_string_def insert_action_group_def
      split: option.splits)

lemma activated_world_window:
  "windows (activated_world win doc) 0 =
     win\<lparr>ui_manager :=
           snd (add_ui_from_string ui_str (insert_action_group 0 (- 1) (ui_manager win)))\<rparr>"
  by (simp add: activation_defs split: option.splits)

lemma activated_world_documents:
  "documents (activated_world win doc) = (\<lambda>_. doc)"
  by (simp add: activation_defs split: option.splits)

lemma activated_world_instances:
  "instances (activated_world win doc) = [0 \<mapsto> 0]"
  by (simp add: activation_defs split: option.splits)

lemma activated_world_action_group:
  "action_groups (activated_world win doc) 0 =
     \<lparr>group_name = ''HighlightTextPluginActions'', sensitive = True,
      actions = [highlight_text_action 0]\<rparr>"
  by (simp add: activation_defs new_action_group_def add_actions_def set_sensitive_def
      split: option.splits)

lemma foo_document_selection:
  "get_selection_bounds foo_document = Some (2, 5)" "get_text foo_document 2 5 = ''foo''"
  by (simp_all add: foo_document_def get_selection_bounds_def get_text_def)

text \<open>
  \<^bold>\<open>C1.\<close> Whenever the text selected in the active document is \<^verbatim>\<open>foo\<close>, the helper's
  highlight action returns normally and leaves that document with search text \<^verbatim>\<open>foo\<close>,
  the case-sensitive flag set and the whole-word flag unset.
\<close>

theorem highlight_selection_foo:
  assumes "helper_plugin (helpers w h) = Some p"
      and "helper_window (helpers w h) = Some win"
      and "active_document (windows w win) = Some d"
      and "get_selection_bounds (documents w d) = Some (s, e)"
      and "get_text (documents w d) s e = ''foo''"
  shows "fst (highlight_selection h action w) = Inr ()
       \<and> search_text (documents (snd (highlight_selection h action w)) d) = ''foo''
       \<and> SEARCH_CASE_SENSITIVE \<in> search_flags (documents (snd (highlight_selection h action w)) d)
       \<and> SEARCH_ENTIRE_WORD \<notin> search_flags (documents (snd (highlight_selection h action w)) d)"
proof -
  have "get_text_selection h w = (Inr ''foo'', w)"
    using get_text_selection_selected [OF assms(1-4)] assms(5) by simp
  then have "highlight_selection h action w =
      (Inr (), update_document d (set_search_text ''foo'' {SEARCH_CASE_SENSITIVE}) w)"
    using highlight_selection_sets [OF assms(1-3)] by simp
  then show ?thesis
    by (simp add: update_document_def set_search_text_def)
qed

theorem highlight_selection_foo_witness:
  "get_selection_bounds (documents (activated_world editing_window foo_document) 0) = Some (2, 5)
 \<and> get_text (documents (activated_world editing_window foo_document) 0) 2 5 = ''foo''
 \<and> fst (highlight_selection 0 (highlight_text_action 0)
          (activated_world editing_window foo_document)) = Inr ()
 \<and> search_text (documents (snd (highlight_selection 0 (highlight_text_action 0)
          (activated_world editing_window foo_document))) 0) = ''foo''
 \<and> SEARCH_CASE_SENSITIVE \<in> search_flags (documents (snd (highlight_selection 0
          (highlight_text_action 0) (activated_world editing_window foo_document))) 0)
 \<and> SEARCH_ENTIRE_WORD \<notin> search_flags (documents (snd (highlight_selection 0
          (highlight_text_action 0) (activated_world editing_window foo_document))) 0)"
  using highlight_selection_foo [of "activated_world editing_window foo_document" 0 PluginRoot
      0 0 2 5 "highlight_text_action 0"]
  by (simp add: activated_world_helper activated_world_window activated_world_documents
      foo_document_selection editing_window_def)

text \<open>
  \<^bold>\<open>C2.\<close> Whenever the active document exists and has no selection, the highlight action
  returns normally and leaves that document with the empty search text, the case-sensitive
  flag set and the whole-word flag unset.
\<close>

theorem highlight_selection_no_selection:
  assumes "helper_plugin (helpers w h) = Some p"
      and "helper_window (helpers w h) = Some win"
      and "active_document (windows w win) = Some d"
      and "\<not> get_has_selection (documents w d)"
  shows "fst (highlight_selection h action w) = Inr ()
       \<and> search_text (documents (snd (highlight_selection h action w)) d) = []
       \<and> SEARCH_CASE_SENSITIVE \<in> search_flags (documents (snd (highlight_selection h action w)) d)
       \<and> SEARCH_ENTIRE_WORD \<notin> search_flags (documents (snd (highlight_selection h action w)) d)"
proof -
  have "highlight_selection h action w =
      (Inr (), update_document d (set_search_text [] {SEARCH_CASE_SENSITIVE}) w)"
    using highlight_selection_sets [OF assms(1-3) get_text_selection_unselected [OF assms]] .
  then show ?thesis
    by (simp add: update_document_def set_search_text_def)
qed

theorem highlight_selection_no_selection_witness:
  "\<not> get_has_selection (documents (activated_world editing_window unselected_document) 0)
 \<and> search_text (documents (activated_world editing_window unselected_document) 0) = ''old''
 \<and> fst (highlight_selection 0 (highlight_text_action 0)
          (activated_world editing_window unselected_document)) = Inr ()
 \<and> search_text (documents (snd (highlight_selection 0 (highlight_text_action 0)
          (activated_world editing_window unselected_document))) 0) = []
 \<and> SEARCH_CASE_SENSITIVE \<in> search_flags (documents (snd (highlight_selection 0
          (highlight_text_action 0) (activated_world editing_window unselected_document))) 0)
 \<and> SEARCH_ENTIRE_WORD \<notin> search_flags (documents (snd (highlight_selection 0
          (highlight_text_action 0) (activated_world editing_window unselected_document))) 0)"
  using highlight_selection_no_selection [of "activated_world editing_window unselected_document"
      0 PluginRoot 0 0 "highlight_text_action 0"]
  by (simp add: activated_world_helper activated_world_window activated_world_documents
      editing_window_def unselected_document_def get_has_selection_def)

text \<open>
  \<^bold>\<open>C7.\<close> When the helper's window has no active document, the highlight action raises
  \<^verbatim>\<open>AttributeError\<close> and leaves the world as it was, so no search text is set. The exception
  comes from \<^verbatim>\<open>_get_text_selection\<close>, the first place that dereferences the document; nothing
  before it tests the document for \<^verbatim>\<open>None\<close>.
\<close>

theorem highlight_selection_no_document:
  assumes "helper_plugin (helpers w h) = Some p"
      and "helper_window (helpers w h) = Some win"
      and "active_document (windows w win) = None"
  shows "get_text_selection h w = (Inl AttributeError, w)
       \<and> highlight_selection h action w = (Inl AttributeError, w)"
  using assms
  by (simp add: highlight_selection_def get_text_selection_def helper_log_def plugin_log_def)

theorem highlight_selection_no_document_witness:
  "active_document (windows (activated_world empty_window foo_document) 0) = None
 \<and> highlight_selection 0 (highlight_text_action 0) (activated_world empty_window foo_document)
     = (Inl AttributeError, activated_world empty_window foo_document)"
  using highlight_selection_no_document [of "activated_world empty_window foo_document"
      0 PluginRoot 0 "highlight_text_action 0"]
  by (simp add: activated_world_helper activated_world_window empty_window_def)

subsection \<open>Enabling the menu\<close>

lemma helper_update_ui_live:
  assumes "helper_plugin (helpers w h) = Some p"
      and "helper_window (helpers w h) = Some win"
      and "helper_action_group (helpers w h) = Some g"
  shows "helper_update_ui h a w =
           (Inr (),
            if active_document (windows w win) \<noteq> None
               \<and> (\<exists>v. active_view (windows w win) = Some v \<and> editable v)
            then update_action_group g (set_sensitive True) w else w)"
  using assms
  by (auto simp: helper_update_ui_def helper_log_def plugin_log_def split: option.splits)

lemma helper_update_ui_frame:
  assumes "helper_plugin (helpers w h) = Some p"
      and "helper_window (helpers w h) = Some win"
      and "helper_action_group (helpers w h) = Some g"
  shows "fst (helper_update_ui h a w) = Inr ()
       \<and> helpers (snd (helper_update_ui h a w)) = helpers w
       \<and> instances (snd (helper_update_ui h a w)) = instances w
       \<and> next_helper (snd (helper_update_ui h a w)) = next_helper w"
  unfolding helper_update_ui_live [OF assms]
  by (simp add: update_action_group_def)

text \<open>
  \<^bold>\<open>C5.\<close> On a helper that holds its plugin and its window, \<^verbatim>\<open>update_ui\<close> returns normally.
  When the window has an active document and an active view that is editable, it sets the
  action group's sensitivity to true and changes nothing else. When either is missing, or
  the view is not editable, it leaves the whole world as it was: the action group is neither
  enabled nor disabled.
\<close>

theorem helper_update_ui_enable_only:
  assumes "helper_plugin (helpers w h) = Some p"
      and "helper_window (helpers w h) = Some win"
  shows "(active_document (windows w win) \<noteq> None
            \<and> (\<exists>v. active_view (windows w win) = Some v \<and> editable v)
            \<and> helper_action_group (helpers w h) = Some g
          \<longrightarrow> helper_update_ui h a w = (Inr (), update_action_group g (set_sensitive True) w)
            \<and> sensitive (action_groups (snd (helper_update_ui h a w)) g))
       \<and> (\<not> (active_document (windows w win) \<noteq> None
               \<and> (\<exists>v. active_view (windows w win) = Some v \<and> editable v))
          \<longrightarrow> helper_update_ui h a w = (Inr (), w))"
  using assms
  by (auto simp: helper_update_ui_def helper_log_def plugin_log_def update_action_group_def
      set_sensitive_def split: option.splits)

theorem helper_update_ui_enable_only_witness:
  "helper_update_ui 0 None
     (update_action_group 0 (set_sensitive False) (activated_world editing_window foo_document))
     = (Inr (), update_action_group 0 (set_sensitive True)
          (update_action_group 0 (set_sensitive False)
             (activated_world editing_window foo_document)))
 \<and> \<not> sensitive (action_groups (update_action_group 0 (set_sensitive False)
        (activated_world editing_window foo_document)) 0)
 \<and> sensitive (action_groups (snd (helper_update_ui 0 None
        (update_action_group 0 (set_sensitive False)
           (activated_world editing_window foo_document)))) 0)
 \<and> active_document (windows (activated_world empty_window foo_document) 0) = None
 \<and> helper_update_ui 0 None (activated_world empty_window foo_document)
     = (Inr (), activated_world empty_window foo_document)"
  using helper_update_ui_enable_only [of
      "update_action_group 0 (set_sensitive False) (activated_world editing_window foo_document)"
      0 PluginRoot 0 0 None]
    helper_update_ui_enable_only [of "activated_world empty_window foo_document"
      0 PluginRoot 0 0 None]
  by (simp add: activated_world_helper activated_world_window update_action_group_def
      set_sensitive_def editing_window_def empty_window_def)

text \<open>
  \<^bold>\<open>C10.\<close> The helper's \<^verbatim>\<open>update_ui\<close> does not look at its argument: two calls in the same
  world with different arguments return the same result and leave the same world.
\<close>

theorem helper_update_ui_ignores_argument:
  "helper_update_ui h a w = helper_update_ui h b w"
  by (simp add: helper_update_ui_def)

subsection \<open>The plugin's trivial operations\<close>

text \<open>
  \<^bold>\<open>C8.\<close> \<^verbatim>\<open>is_configurable\<close> returns \<^verbatim>\<open>False\<close> in every world, and leaves the world as it was.
\<close>

theorem is_configurable_false:
  "is_configurable w = (Inr False, w)"
  by (simp add: is_configurable_def plugin_log_def)

subsection \<open>Tearing a helper down\<close>

lemma remove_menu_live:
  assumes "helper_plugin (helpers w h) = Some p"
      and "helper_window (helpers w h) = Some win"
      and "helper_ui_id (helpers w h) = Some merge_id"
      and "helper_action_group (helpers w h) = Some g"
  shows "remove_menu h w =
           (Inr (), update_manager win (\<lambda>m. remove_action_group g (remove_ui merge_id m)) w)"
  using assms
  by (simp add: remove_menu_def helper_log_def plugin_log_def Let_def update_manager_def
      ensure_update_def)

lemma helper_deactivate_live:
  assumes "helper_plugin (helpers w h) = Some p"
      and "helper_window (helpers w h) = Some win"
      and "helper_ui_id (helpers w h) = Some merge_id"
      and "helper_action_group (helpers w h) = Some g"
  shows "helper_deactivate h w =
           (Inr (),
            update_helper h
              (\<lambda>x. x\<lparr>helper_action_group := None, helper_plugin := None, helper_window := None\<rparr>)
              (update_manager win (\<lambda>m. remove_action_group g (remove_ui merge_id m)) w))"
  using assms
  by (simp add: helper_deactivate_def helper_log_def plugin_log_def Let_def
      remove_menu_live [OF assms] update_helper_def)

lemma helper_deactivate_instances:
  "instances (snd (helper_deactivate h w)) = instances w"
  by (simp add: helper_deactivate_def remove_menu_def helper_log_def plugin_log_def Let_def
      update_helper_def update_manager_def split: option.splits)

lemma activated_world_teardown:
  "helper_deactivate 0 (activated_world editing_window foo_document) =
     (Inr (), update_helper 0
        (\<lambda>x. x\<lparr>helper_action_group := None, helper_plugin := None, helper_window := None\<rparr>)
        (update_manager 0 (\<lambda>m. remove_action_group 0 (remove_ui 1 m))
           (activated_world editing_window foo_document)))"
  by (rule helper_deactivate_live [of _ _ PluginRoot])
     (simp_all add: activated_world_helper editing_window_def empty_manager_def)

lemma torn_helper_deactivate:
  assumes "helper_plugin (helpers w h) = None"
  shows "helper_deactivate h w = (Inl AttributeError, w)"
  using assms by (simp add: helper_deactivate_def helper_log_def)

text \<open>
  \<^bold>\<open>C4.\<close> As stated the claim fails: \<^verbatim>\<open>deactivate\<close> assigns \<^verbatim>\<open>None\<close> to \<^verbatim>\<open>_action_group\<close>,
  \<^verbatim>\<open>_plugin\<close> and \<^verbatim>\<open>_window\<close>, and never to \<^verbatim>\<open>_ui_id\<close>. After activating and deactivating the
  helper of window 0, its \<^verbatim>\<open>_ui_id\<close> still holds the merge identifier.
\<close>

theorem helper_deactivate_keeps_ui_id_counterexample:
  "fst (helper_deactivate 0 (activated_world editing_window foo_document)) = Inr ()
 \<and> \<not> (helper_plugin (helpers (snd (helper_deactivate 0
          (activated_world editing_window foo_document))) 0) = None
      \<and> helper_window (helpers (snd (helper_deactivate 0
          (activated_world editing_window foo_document))) 0) = None
      \<and> helper_ui_id (helpers (snd (helper_deactivate 0
          (activated_world editing_window foo_document))) 0) = None
      \<and> helper_action_group (helpers (snd (helper_deactivate 0
          (activated_world editing_window foo_document))) 0) = None)"
  unfolding activated_world_teardown
  by (simp add: update_helper_def update_manager_def activated_world_helper
      editing_window_def empty_manager_def)

text \<open>
  \<^bold>\<open>C4, amended.\<close> When \<^verbatim>\<open>deactivate\<close> is called on a helper whose four attributes are set, it
  returns normally; afterwards the window's UI manager holds no fragment under the helper's
  merge identifier and does not list the helper's action group, and the helper's references
  to the plugin, to the window and to the action group are \<^verbatim>\<open>None\<close>. The merge identifier
  stays in \<^verbatim>\<open>_ui_id\<close>.
\<close>

theorem helper_deactivate_clears:
  assumes "helper_plugin (helpers w h) = Some p"
      and "helper_window (helpers w h) = Some win"
      and "helper_ui_id (helpers w h) = Some merge_id"
      and "helper_action_group (helpers w h) = Some g"
  shows "fst (helper_deactivate h w) = Inr ()
       \<and> merge_id \<notin> fst ` set (um_merged (ui_manager (windows (snd (helper_deactivate h w)) win)))
       \<and> g \<notin> set (um_action_groups (ui_manager (windows (snd (helper_deactivate h w)) win)))
       \<and> helper_plugin (helpers (snd (helper_deactivate h w)) h) = None
       \<and> helper_window (helpers (snd (helper_deactivate h w)) h) = None
       \<and> helper_action_group (helpers (snd (helper_deactivate h w)) h) = None
       \<and> helper_ui_id (helpers (snd (helper_deactivate h w)) h) = Some merge_id"
  unfolding helper_deactivate_live [OF assms]
  using assms(3)
  by (auto simp: update_helper_def update_manager_def remove_action_group_def remove_ui_def)

theorem helper_deactivate_clears_witness:
  "(1::nat) \<in> fst ` set (um_merged (ui_manager
        (windows (activated_world editing_window foo_document) 0)))
 \<and> (0::nat) \<in> set (um_action_groups (ui_manager
        (windows (activated_world editing_window foo_document) 0)))
 \<and> fst (helper_deactivate 0 (activated_world editing_window foo_document)) = Inr ()
 \<and> (1::nat) \<notin> fst ` set (um_merged (ui_manager (windows (snd (helper_deactivate 0
        (activated_world editing_window foo_document))) 0)))
 \<and> (0::nat) \<notin> set (um_action_groups (ui_manager (windows (snd (helper_deactivate 0
        (activated_world editing_window foo_document))) 0)))
 \<and> helper_plugin (helpers (snd (helper_deactivate 0
        (activated_world editing_window foo_document))) 0) = None
 \<and> helper_window (helpers (snd (helper_deactivate 0
        (activated_world editing_window foo_document))) 0) = None
 \<and> helper_action_group (helpers (snd (helper_deactivate 0
        (activated_world editing_window foo_document))) 0) = None"
  using helper_deactivate_clears [of "activated_world editing_window foo_document" 0 PluginRoot
      0 1 0]
  by (simp add: activated_world_helper activated_world_window editing_window_def
      empty_manager_def add_ui_from_string_def insert_action_group_def)

text \<open>
  \<^bold>\<open>C6.\<close> \<^verbatim>\<open>deactivate\<close> for a window that has no entry in \<^verbatim>\<open>_instances\<close> raises \<^verbatim>\<open>KeyError\<close>
  and leaves the world, and with it the dictionary, as it was.
\<close>

theorem deactivate_unknown_window:
  assumes "instances w window = None"
  shows "deactivate window w = (Inl KeyError, w)"
  using assms by (simp add: deactivate_def plugin_log_def)

theorem deactivate_unknown_window_witness:
  "instances (activated_world editing_window foo_document) 7 = None
 \<and> deactivate 7 (activated_world editing_window foo_document)
     = (Inl KeyError, activated_world editing_window foo_document)"
  using deactivate_unknown_window [of "activated_world editing_window foo_document" 7]
  by (simp add: activated_world_instances)

text \<open>
  \<^bold>\<open>C9.\<close> For a window that has a helper, the plugin's \<^verbatim>\<open>deactivate\<close> first runs the helper's
  \<^verbatim>\<open>deactivate\<close>. If that raises, the plugin's call raises the same exception in the same
  world, with the dictionary as it was before the call. If it returns, the result is the
  world the helper left, with the window's entry deleted.
\<close>

theorem deactivate_after_teardown:
  assumes "instances w window = Some h"
  shows "(fst (helper_deactivate h w) = Inl e
          \<longrightarrow> deactivate window w = helper_deactivate h w
            \<and> instances (snd (deactivate window w)) = instances w)
       \<and> (fst (helper_deactivate h w) = Inr ()
          \<longrightarrow> deactivate window w =
                (Inr (), (snd (helper_deactivate h w))\<lparr>instances := (instances w)(window := None)\<rparr>))"
proof -
  obtain r w2 where hd: "helper_deactivate h w = (r, w2)"
    by (cases "helper_deactivate h w")
  have i2: "instances w2 = instances w"
    using helper_deactivate_instances [of h w] hd by simp
  show ?thesis
    using assms by (cases r) (simp_all add: deactivate_def plugin_log_def hd i2)
qed

theorem deactivate_after_teardown_witness:
  "instances (snd (helper_deactivate 0 (activated_world editing_window foo_document))) 0 = Some 0
 \<and> fst (deactivate 0 (snd (helper_deactivate 0 (activated_world editing_window foo_document))))
     = Inl AttributeError
 \<and> instances (snd (deactivate 0
       (snd (helper_deactivate 0 (activated_world editing_window foo_document))))) 0 = Some 0
 \<and> fst (deactivate 0 (activated_world editing_window foo_document)) = Inr ()
 \<and> instances (snd (deactivate 0 (activated_world editing_window foo_document))) 0 = None"
proof -
  let ?w = "activated_world editing_window foo_document"
  let ?t = "snd (helper_deactivate 0 ?w)"
  have "helper_plugin (helpers ?t 0) = None"
    by (simp add: activated_world_teardown update_helper_def)
  then have torn: "helper_deactivate 0 ?t = (Inl AttributeError, ?t)"
    by (rule torn_helper_deactivate)
  have i: "instances ?t = [0 \<mapsto> 0]"
    by (simp add: helper_deactivate_instances activated_world_instances)
  have ok: "fst (helper_deactivate 0 ?w) = Inr ()"
    by (simp add: activated_world_teardown)
  show ?thesis
    using deactivate_after_teardown [of ?t 0 0 AttributeError]
      deactivate_after_teardown [of ?w 0 0 AttributeError]
    by (simp add: torn i ok activated_world_instances)
qed

subsection \<open>Sequences of activate and deactivate calls\<close>

lemma insert_menu_live:
  assumes "helper_plugin (helpers w h) = Some p"
      and "helper_window (helpers w h) = Some win"
  shows "fst (insert_menu h w) = Inr ()
       \<and> helpers (snd (insert_menu h w)) =
           (helpers w)(h := (helpers w h)\<lparr>helper_action_group := Some (next_action_group w),
              helper_ui_id := Some (Suc (um_last_merge_id (ui_manager (windows w win))))\<rparr>)
       \<and> instances (snd (insert_menu h w)) = instances w
       \<and> next_helper (snd (insert_menu h w)) = next_helper w"
  using assms
  by (simp add: insert_menu_def helper_log_def plugin_log_def Let_def update_helper_def
      update_action_group_def update_manager_def add_ui_from_string_def insert_action_group_def)

lemma helper_init_live:
  "\<exists>w'. helper_init p x w = (Inr (next_helper w), w')
       \<and> instances w' = instances w
       \<and> next_helper w' = Suc (next_helper w)
       \<and> (\<forall>k. k \<noteq> next_helper w \<longrightarrow> helpers w' k = helpers w k)
       \<and> helper_window (helpers w' (next_helper w)) = Some x
       \<and> helper_plugin (helpers w' (next_helper w)) = Some p
       \<and> helper_ui_id (helpers w' (next_helper w)) \<noteq> None
       \<and> helper_action_group (helpers w' (next_helper w)) \<noteq> None"
proof -
  let ?h = "next_helper w"
  define w4 where "w4 = w\<lparr>next_helper := Suc ?h, helpers := (helpers w)(?h :=
                     \<lparr>helper_window = Some x, helper_plugin = Some p,
                      helper_ui_id = None, helper_action_group = None\<rparr>)\<rparr>"
  have pre: "helper_init p x w =
      (case insert_menu ?h w4 of
         (Inl e, w5) \<Rightarrow> (Inl e, w5)
       | (Inr _, w5) \<Rightarrow>
          (case helper_update_ui ?h (helper_window (helpers w5 ?h)) w5 of
             (Inl e, w6) \<Rightarrow> (Inl e, w6)
           | (Inr _, w6) \<Rightarrow> (Inr ?h, w6)))"
    by (simp add: helper_init_def helper_log_def plugin_log_def Let_def update_helper_def
        w4_def)
  have f4: "helper_plugin (helpers w4 ?h) = Some p" "helper_window (helpers w4 ?h) = Some x"
    by (simp_all add: w4_def)
  define w5 where "w5 = snd (insert_menu ?h w4)"
  have im: "insert_menu ?h w4 = (Inr (), w5)"
    using insert_menu_live [OF f4] by (simp add: w5_def prod_eq_iff)
  have h5: "helpers w5 =
      (helpers w4)(?h := (helpers w4 ?h)\<lparr>helper_action_group := Some (next_action_group w4),
              helper_ui_id := Some (Suc (um_last_merge_id (ui_manager (windows w4 x))))\<rparr>)"
    and i5: "instances w5 = instances w4" and n5: "next_helper w5 = next_helper w4"
    using insert_menu_live [OF f4] by (simp_all add: w5_def)
  have f5: "helper_plugin (helpers w5 ?h) = Some p" "helper_window (helpers w5 ?h) = Some x"
    "helper_action_group (helpers w5 ?h) = Some (next_action_group w4)"
    by (simp_all add: h5 f4)
  define w6 where "w6 = snd (helper_update_ui ?h (helper_window (helpers w5 ?h)) w5)"
  have ui: "helper_update_ui ?h (helper_window (helpers w5 ?h)) w5 = (Inr (), w6)"
    using helper_update_ui_frame [OF f5] by (simp add: w6_def prod_eq_iff)
  have h6: "helpers w6 = helpers w5" and i6: "instances w6 = instances w5"
    and n6: "next_helper w6 = next_helper w5"
    using helper_update_ui_frame [OF f5] by (simp_all add: w6_def)
  have res: "helper_init p x w = (Inr ?h, w6)"
    by (simp add: pre im ui)
  show ?thesis
    by (rule exI [of _ w6]) (simp add: res h6 h5 i6 i5 n6 n5 w4_def)
qed

lemma activate_live:
  "\<exists>w'. activate x w = (Inr (), w')
       \<and> instances w' = (instances w)(x \<mapsto> next_helper w)
       \<and> next_helper w' = Suc (next_helper w)
       \<and> (\<forall>k. k \<noteq> next_helper w \<longrightarrow> helpers w' k = helpers w k)
       \<and> helper_window (helpers w' (next_helper w)) = Some x
       \<and> helper_plugin (helpers w' (next_helper w)) \<noteq> None
       \<and> helper_ui_id (helpers w' (next_helper w)) \<noteq> None
       \<and> helper_action_group (helpers w' (next_helper w)) \<noteq> None"
proof -
  obtain w' where w': "helper_init PluginRoot x w = (Inr (next_helper w), w')"
       "instances w' = instances w"
       "next_helper w' = Suc (next_helper w)"
       "\<forall>k. k \<noteq> next_helper w \<longrightarrow> helpers w' k = helpers w k"
       "helper_window (helpers w' (next_helper w)) = Some x"
       "helper_plugin (helpers w' (next_helper w)) = Some PluginRoot"
       "helper_ui_id (helpers w' (next_helper w)) \<noteq> None"
       "helper_action_group (helpers w' (next_helper w)) \<noteq> None"
    using helper_init_live [of PluginRoot x w] by blast
  show ?thesis
    by (rule exI [of _ "w'\<lparr>instances := (instances w')(x \<mapsto> next_helper w)\<rparr>"])
       (simp add: activate_def plugin_log_def w')
qed

lemma activate_inv:
  assumes "plugin_inv w"
  shows "\<exists>w'. activate x w = (Inr (), w') \<and> plugin_inv w'
             \<and> dom (instances w') = insert x (dom (instances w))"
proof -
  obtain w' where w': "activate x w = (Inr (), w')"
       "instances w' = (instances w)(x \<mapsto> next_helper w)"
       "next_helper w' = Suc (next_helper w)"
       "\<forall>k. k \<noteq> next_helper w \<longrightarrow> helpers w' k = helpers w k"
       "helper_window (helpers w' (next_helper w)) = Some x"
       "helper_plugin (helpers w' (next_helper w)) \<noteq> None"
       "helper_ui_id (helpers w' (next_helper w)) \<noteq> None"
       "helper_action_group (helpers w' (next_helper w)) \<noteq> None"
    using activate_live [of x w] by blast
  have "plugin_inv w'"
    unfolding plugin_inv_def
  proof (intro allI impI)
    fix win h assume a: "instances w' win = Some h"
    show "h < next_helper w' \<and> helper_window (helpers w' h) = Some win
        \<and> helper_plugin (helpers w' h) \<noteq> None \<and> helper_ui_id (helpers w' h) \<noteq> None
        \<and> helper_action_group (helpers w' h) \<noteq> None"
    proof (cases "win = x")
      case True
      with a w'(2) have "h = next_helper w" by simp
      with True w' show ?thesis by simp
    next
      case False
      with a w'(2) have old: "instances w win = Some h" by simp
      with assms have lt: "h < next_helper w" and rest: "helper_window (helpers w h) = Some win"
        "helper_plugin (helpers w h) \<noteq> None" "helper_ui_id (helpers w h) \<noteq> None"
        "helper_action_group (helpers w h) \<noteq> None"
        unfolding plugin_inv_def by blast+
      from lt have "helpers w' h = helpers w h" using w'(4) by simp
      with lt rest w'(3) show ?thesis by simp
    qed
  qed
  moreover have "dom (instances w') = insert x (dom (instances w))"
    by (simp add: w'(2))
  ultimately show ?thesis using w'(1) by blast
qed

lemma deactivate_inv:
  assumes "plugin_inv w" and "x \<in> dom (instances w)"
  shows "\<exists>w'. deactivate x w = (Inr (), w') \<and> plugin_inv w'
             \<and> dom (instances w') = dom (instances w) - {x}"
proof -
  from assms(2) obtain h where h: "instances w x = Some h" by blast
  with assms(1) obtain p merge_id g where live:
      "helper_plugin (helpers w h) = Some p" "helper_window (helpers w h) = Some x"
      "helper_ui_id (helpers w h) = Some merge_id" "helper_action_group (helpers w h) = Some g"
    unfolding plugin_inv_def by blast
  define w2 where "w2 = update_helper h
              (\<lambda>x. x\<lparr>helper_action_group := None, helper_plugin := None, helper_window := None\<rparr>)
              (update_manager x (\<lambda>m. remove_action_group g (remove_ui merge_id m)) w)"
  define w' where "w' = w2\<lparr>instances := (instances w2)(x := None)\<rparr>"
  have hd: "helper_deactivate h w = (Inr (), w2)"
    using helper_deactivate_live [OF live] by (simp add: w2_def)
  have i2: "instances w2 = instances w" and n2: "next_helper w2 = next_helper w"
    and h2: "\<And>k. k \<noteq> h \<Longrightarrow> helpers w2 k = helpers w k"
    by (simp_all add: w2_def update_helper_def update_manager_def)
  have res: "deactivate x w = (Inr (), w')"
    by (simp add: deactivate_def plugin_log_def h hd i2 w'_def)
  have "plugin_inv w'"
    unfolding plugin_inv_def
  proof (intro allI impI)
    fix win k assume a: "instances w' win = Some k"
    then have ne: "win \<noteq> x" and old: "instances w win = Some k"
      by (auto simp: w'_def i2 split: if_splits)
    from old assms(1) have k: "k < next_helper w" "helper_window (helpers w k) = Some win"
        "helper_plugin (helpers w k) \<noteq> None" "helper_ui_id (helpers w k) \<noteq> None"
        "helper_action_group (helpers w k) \<noteq> None"
      unfolding plugin_inv_def by blast+
    from k(2) live(2) ne have "k \<noteq> h" by auto
    then have "helpers w' k = helpers w k" using h2 by (simp add: w'_def)
    with k show "k < next_helper w' \<and> helper_window (helpers w' k) = Some win
        \<and> helper_plugin (helpers w' k) \<noteq> None \<and> helper_ui_id (helpers w' k) \<noteq> None
        \<and> helper_action_group (helpers w' k) \<noteq> None"
      by (simp add: w'_def n2)
  qed
  moreover have "dom (instances w') = dom (instances w) - {x}"
    by (simp add: w'_def i2)
  ultimately show ?thesis using res by blast
qed

lemma run_calls_inv:
  assumes "plugin_inv w" and "well_sequenced (dom (instances w)) cs"
  shows "\<exists>w'. run_calls cs w = (Inr (), w') \<and> plugin_inv w'
             \<and> dom (instances w') = activated_after (dom (instances w)) cs"
  using assms
proof (induction cs arbitrary: w)
  case Nil
  then show ?case by simp
next
  case (Cons c cs)
  show ?case
  proof (cases c)
    case (Activate x)
    from activate_inv [OF Cons.prems(1), of x] obtain w1 where
      w1: "activate x w = (Inr (), w1)" "plugin_inv w1"
          "dom (instances w1) = insert x (dom (instances w))" by blast
    from Cons.prems(2) Activate w1(3) have "well_sequenced (dom (instances w1)) cs" by simp
    from Cons.IH [OF w1(2) this] w1 Activate show ?thesis by simp
  next
    case (Deactivate x)
    from Cons.prems(2) Deactivate have x: "x \<in> dom (instances w)" by simp
    from deactivate_inv [OF Cons.prems(1) x] obtain w1 where
      w1: "deactivate x w = (Inr (), w1)" "plugin_inv w1"
          "dom (instances w1) = dom (instances w) - {x}" by blast
    from Cons.prems(2) Deactivate w1(3) have "well_sequenced (dom (instances w1)) cs" by simp
    from Cons.IH [OF w1(2) this] w1 Deactivate show ?thesis by simp
  qed
qed

lemma plugin_init_inv: "plugin_inv (plugin_init w)"
  by (simp add: plugin_inv_def plugin_init_def)

text \<open>
  The set \<open>activated_after A cs\<close> is what its name says: a window is in it when the last
  call for that window is an activate, or when there is no call for it and it was in \<open>A\<close>.
\<close>

lemma activated_after_last:
  "x \<in> activated_after A cs \<longleftrightarrow>
     (case filter (\<lambda>c. call_window c = x) cs of
        [] \<Rightarrow> x \<in> A
      | c # ys \<Rightarrow> last (c # ys) = Activate x)"
proof (induction cs arbitrary: A)
  case Nil
  then show ?case by simp
next
  case (Cons c cs)
  show ?case
  proof (cases c)
    case (Activate y)
    then show ?thesis
      using Cons.IH [of "insert y A"] by (auto split: list.splits)
  next
    case (Deactivate y)
    then show ?thesis
      using Cons.IH [of "A - {y}"] by (auto split: list.splits)
  qed
qed

text \<open>
  \<^bold>\<open>C3.\<close> Start from a freshly initialised plugin and run any sequence of activate and
  deactivate calls in which every activate is for a window not currently activated and
  every deactivate for one that is. Then no call raises, and afterwards the keys of
  \<^verbatim>\<open>_instances\<close> are exactly the windows activated and not since deactivated. The dictionary
  holds one helper for each of them, and no helper is stored under two windows.
\<close>

theorem lifecycle_mapping:
  assumes "well_sequenced {} cs"
  shows "fst (run_calls cs (plugin_init w)) = Inr ()
       \<and> dom (instances (snd (run_calls cs (plugin_init w)))) = activated_after {} cs
       \<and> inj_on (instances (snd (run_calls cs (plugin_init w)))) (activated_after {} cs)"
proof -
  have d: "dom (instances (plugin_init w)) = {}"
    by (simp add: plugin_init_def)
  from run_calls_inv [OF plugin_init_inv, of w cs] assms d
  obtain w' where w': "run_calls cs (plugin_init w) = (Inr (), w')" "plugin_inv w'"
      "dom (instances w') = activated_after {} cs" by auto
  have "inj_on (instances w') (dom (instances w'))"
  proof (rule inj_onI)
    fix a b assume "a \<in> dom (instances w')" "b \<in> dom (instances w')"
      and eq: "instances w' a = instances w' b"
    then obtain h where "instances w' a = Some h" "instances w' b = Some h" by auto
    with w'(2) have "helper_window (helpers w' h) = Some a" "helper_window (helpers w' h) = Some b"
      unfolding plugin_inv_def by blast+
    then show "a = b" by simp
  qed
  with w' show ?thesis by simp
qed

theorem lifecycle_mapping_witness:
  "well_sequenced {} [Activate 1, Activate 2, Deactivate 1, Activate 3]
 \<and> fst (run_calls [Activate 1, Activate 2, Deactivate 1, Activate 3]
          (plugin_init (host_world editing_window foo_document))) = Inr ()
 \<and> dom (instances (snd (run_calls [Activate 1, Activate 2, Deactivate 1, Activate 3]
          (plugin_init (host_world editing_window foo_document))))) = {2, 3}"
  using lifecycle_mapping [of "[Activate 1, Activate 2, Deactivate 1, Activate 3]"
      "host_world editing_window foo_document"]
  by (simp add: insert_commute)

end
